theory Spec2Isabelle
  imports Complex_Main "HOL-Library.Sublist" "HOL-Library.Multiset"
begin

section \<open>Data model\<close>

text \<open>
  The JSON documents exchanged between the controller (chatController) and the staff
  dashboard. A ticket is one record for both sides: the controller writes it with
  \<^verbatim>\<open>Ticket.create\<close>, the dashboard reads it through its \<^verbatim>\<open>Ticket\<close> interface.
  The status union \<^verbatim>\<open>"raised" | "in_progress" | "completed"\<close> is a datatype;
  \<open>createdAt\<close> is the value of \<^verbatim>\<open>new Date(createdAt).getTime()\<close>, milliseconds
  since the epoch. Text is ASCII: one \<open>char\<close> per character.
\<close>

datatype status = Raised | In_progress | Completed

fun status_name :: "status \<Rightarrow> string" where
  "status_name Raised = ''raised''"
| "status_name In_progress = ''in_progress''"
| "status_name Completed = ''completed''"

record guest_info =
  name :: string
  email :: "string option"
  phone :: "string option"

record message_doc =
  content :: string
  sender :: string
  senderName :: string
  timestamp :: string

record ticket =
  ticket_id :: string
  room :: string
  roomNumber :: string
  category :: "string option"
  guestInfo :: guest_info
  status :: status
  manager :: "string option"
  subject :: "string option"
  messages :: "message_doc list"
  priority :: string
  estimatedCompletion :: "string option"
  ticket_confidence :: real
  createdAt :: int

record room_doc =
  room_id :: string
  number :: string
  room_manager :: "string option"

text \<open>The classifier's answer (\<^verbatim>\<open>response.data\<close> of the external API).\<close>

record category_info =
  ci_category :: string
  ci_message :: string
  urgency :: "string option"

record classification =
  should_create_ticket :: bool
  categories :: "category_info list option"
  confidence :: real
  reasoning :: string
  suggested_priority :: string
  estimated_completion_time :: "string option"

section \<open>Exceptions\<close>

text \<open>
  A JavaScript \<^verbatim>\<open>throw\<close> (or a rejected promise under \<^verbatim>\<open>await\<close>) is the left
  summand; \<^verbatim>\<open>try { body } catch (error) { handler }\<close> is \<open>try_catch\<close>.
\<close>

datatype js_error = AxiosError | TypeError | MongoError

definition try_catch ::
  "js_error + 'a \<Rightarrow> (js_error \<Rightarrow> js_error + 'a) \<Rightarrow> js_error + 'a" where
  "try_catch body handler = (case body of Inl e \<Rightarrow> handler e | Inr v \<Rightarrow> Inr v)"

section \<open>Classification gateway\<close>

text \<open>
  \<^verbatim>\<open>classifyWithExternalAPI(message, roomNumber)\<close>. The first argument of the model
  is \<^verbatim>\<open>axios.post\<close> against the classifier: it either rejects or resolves with the
  classifier's data. \<open>roomNumber\<close> is \<open>None\<close> when the caller passes
  \<^verbatim>\<open>undefined\<close> (chatWithAI reads it from \<^verbatim>\<open>guestInfo.roomNumber\<close>): then
  \<^verbatim>\<open>roomNumber.toString()\<close> throws a TypeError inside the \<^verbatim>\<open>try\<close>.
  The two \<^verbatim>\<open>console\<close> calls are not modelled.
\<close>

definition fallback :: classification where
  "fallback = \<lparr> should_create_ticket = False, categories = Some [], confidence = 0,
     reasoning = ''Classification service unavailable'', suggested_priority = ''low'',
     estimated_completion_time = None \<rparr>"

definition classifyWithExternalAPI ::
  "(string \<Rightarrow> string \<Rightarrow> js_error + classification) \<Rightarrow> string \<Rightarrow> string option
     \<Rightarrow> js_error + classification" where
  "classifyWithExternalAPI axios_post msg roomNo =
     try_catch
       (case roomNo of
          None \<Rightarrow> Inl TypeError
        | Some rn \<Rightarrow> axios_post msg rn)
       (\<lambda>error. Inr fallback)"

section \<open>Guest ticket creation\<close>

text \<open>
  The request body of \<^verbatim>\<open>POST /api/tickets/guest\<close>; a field is \<open>None\<close> when the
  body does not have it. \<open>truthy\<close> is JavaScript's truthiness of an optional string.
\<close>

record request =
  req_roomNumber :: "string option"
  req_guestInfo :: "guest_info option"
  req_initialMessage :: "string option"

definition truthy :: "string option \<Rightarrow> bool" where
  "truthy v = (case v of None \<Rightarrow> False | Some s \<Rightarrow> s \<noteq> [])"

definition or_else :: "string option \<Rightarrow> string \<Rightarrow> string" where
  "or_else v d = (if truthy v then the v else d)"

text \<open>The JSON body of the response and its HTTP status.\<close>

datatype payload = One ticket | Many "ticket list"

record response =
  http_status :: nat
  success :: bool
  res_message :: string
  shouldCreateTicket :: "bool option"
  isGreeting :: "bool option"
  res_reasoning :: "string option"
  data :: "payload option"
  ticketCount :: "nat option"
  res_categories :: "string list option"

definition plain_response :: "nat \<Rightarrow> bool \<Rightarrow> string \<Rightarrow> response" where
  "plain_response code ok msg = \<lparr> http_status = code, success = ok, res_message = msg,
     shouldCreateTicket = None, isGreeting = None, res_reasoning = None, data = None,
     ticketCount = None, res_categories = None \<rparr>"

text \<open>
  What the handler can change or observe outside itself: the two collections, the
  events sent with \<^verbatim>\<open>io.emit("newTicket", ...)\<close>, the lines written with
  \<^verbatim>\<open>console.error\<close>, and counters of the calls of \<^verbatim>\<open>Ticket.create\<close> and
  \<^verbatim>\<open>Room.findOne\<close>.
\<close>

record newTicket_event =
  ev_ticket :: ticket
  ev_title :: string
  ev_message :: string
  ev_timestamp :: string

record world =
  room_coll :: "room_doc list"
  ticket_coll :: "ticket list"
  emitted :: "newTicket_event list"
  error_log :: "string list"
  create_calls :: nat
  room_lookups :: nat

text \<open>
  What the handler does not decide. Each pass through the \<^verbatim>\<open>try\<close> block of the
  loop ends in one of three ways: \<^verbatim>\<open>Ticket.create\<close> rejects (nothing is stored);
  it resolves and \<^verbatim>\<open>ticket.populate("room")\<close> rejects (the ticket is stored, but
  control is already in the \<^verbatim>\<open>catch\<close>); or the block runs to its end.
  \<open>create_fate\<close> gives the way of the n-th call of \<^verbatim>\<open>Ticket.create\<close>.
  \<^verbatim>\<open>io.emit\<close> is taken not to throw.
\<close>

datatype fate = CreateRejects | PopulateRejects | Completes

record env =
  axios_post :: "string \<Rightarrow> string \<Rightarrow> js_error + classification"
  findOne_rejects :: bool
  create_fate :: "nat \<Rightarrow> fate"
  new_id :: "nat \<Rightarrow> string"
  now_iso :: "nat \<Rightarrow> string"
  now_ms :: "nat \<Rightarrow> int"
  io_present :: bool

definition upper_char :: "char \<Rightarrow> char" where
  "upper_char c = (let n = (of_char c :: nat)
     in if 97 \<le> n \<and> n \<le> 122 then char_of (n - 32) else c)"

definition toUpperCase :: "string \<Rightarrow> string" where
  "toUpperCase s = map upper_char s"

definition new_ticket ::
  "env \<Rightarrow> nat \<Rightarrow> string \<Rightarrow> guest_info \<Rightarrow> room_doc \<Rightarrow> classification \<Rightarrow> category_info
     \<Rightarrow> ticket" where
  "new_ticket e k rn gi r cls ci =
     \<lparr> ticket_id = new_id e k,
       room = room_id r,
       roomNumber = rn,
       category = Some (ci_category ci),
       guestInfo = \<lparr> name = name gi, email = Some (or_else (email gi) []),
                     phone = Some (or_else (phone gi) []) \<rparr>,
       status = Raised,
       manager = room_manager r,
       subject = Some (toUpperCase (ci_category ci) @ '' - Room '' @ rn),
       messages = [\<lparr> content = ci_message ci, sender = ''system'',
                      senderName = ''System'', timestamp = now_iso e k \<rparr>],
       priority = or_else (urgency ci) ''medium'',
       estimatedCompletion = estimated_completion_time cls,
       ticket_confidence = confidence cls,
       createdAt = now_ms e k \<rparr>"

definition new_event :: "env \<Rightarrow> nat \<Rightarrow> string \<Rightarrow> guest_info \<Rightarrow> category_info \<Rightarrow> ticket
     \<Rightarrow> newTicket_event" where
  "new_event e k rn gi ci t =
     \<lparr> ev_ticket = t, ev_title = ''New Service Request'',
       ev_message = name gi @ '' from Room '' @ rn @ '' needs '' @ ci_category ci
                    @ '' assistance'',
       ev_timestamp = now_iso e k \<rparr>"

text \<open>
  One iteration of \<^verbatim>\<open>for (const categoryInfo of classification.categories)\<close>:
  the \<^verbatim>\<open>try\<close> block and its \<^verbatim>\<open>catch\<close>, which only logs. The pair is
  \<^verbatim>\<open>createdTickets\<close> and the world.
\<close>

definition attempt ::
  "env \<Rightarrow> string \<Rightarrow> guest_info \<Rightarrow> room_doc \<Rightarrow> classification \<Rightarrow> category_info
     \<Rightarrow> ticket list \<times> world \<Rightarrow> ticket list \<times> world" where
  "attempt e rn gi r cls ci acc =
     (let created = fst acc; w = snd acc; k = create_calls w;
          t = new_ticket e k rn gi r cls ci;
          w1 = w\<lparr>create_calls := k + 1\<rparr>;
          line = ''Error creating ticket for category '' @ ci_category ci @ '':''
      in case create_fate e k of
           CreateRejects \<Rightarrow> (created, w1\<lparr>error_log := error_log w1 @ [line]\<rparr>)
         | PopulateRejects \<Rightarrow>
             (created, w1\<lparr>ticket_coll := ticket_coll w1 @ [t],
                           error_log := error_log w1 @ [line]\<rparr>)
         | Completes \<Rightarrow>
             (created @ [t],
              w1\<lparr>ticket_coll := ticket_coll w1 @ [t],
                  emitted := (if io_present e
                              then emitted w1 @ [new_event e k rn gi ci t]
                              else emitted w1)\<rparr>))"

fun create_loop ::
  "env \<Rightarrow> string \<Rightarrow> guest_info \<Rightarrow> room_doc \<Rightarrow> classification \<Rightarrow> category_info list
     \<Rightarrow> ticket list \<times> world \<Rightarrow> ticket list \<times> world" where
  "create_loop e rn gi r cls [] acc = acc"
| "create_loop e rn gi r cls (ci # rest) acc =
     create_loop e rn gi r cls rest (attempt e rn gi r cls ci acc)"

text \<open>\<^verbatim>\<open>Room.findOne({ number: roomNumber })\<close>: the first room with that number.\<close>

definition findOne :: "room_doc list \<Rightarrow> string \<Rightarrow> room_doc option" where
  "findOne rs rn = find (\<lambda>r. number r = rn) rs"

definition greeting_response :: "classification \<Rightarrow> response" where
  "greeting_response cls =
     (plain_response 200 True ''No ticket needed for this message'')
       \<lparr> shouldCreateTicket := Some False, isGreeting := Some True,
         res_reasoning := Some (reasoning cls) \<rparr>"

definition created_response :: "classification \<Rightarrow> category_info list \<Rightarrow> ticket list \<Rightarrow> response" where
  "created_response cls cs created =
     (plain_response 201 True
        (''Service request'' @ (if length created > 1 then ''s'' else [])
           @ '' created successfully''))
       \<lparr> data := Some (case created of [t] \<Rightarrow> One t | _ \<Rightarrow> Many created),
         ticketCount := Some (length created),
         res_categories := Some (map ci_category cs),
         shouldCreateTicket := Some True \<rparr>"

text \<open>
  \<^verbatim>\<open>exports.createGuestTicket\<close>, in four parts. \<open>create_all\<close> is the guarded loop
  (\<^verbatim>\<open>if (classification.categories && classification.categories.length > 0)\<close>);
  \<open>respond_created\<close> is the 201 answer, where \<^verbatim>\<open>classification.categories.map\<close>
  throws a TypeError when the classifier sent no categories; \<open>lookup_and_create\<close> is
  the code from \<^verbatim>\<open>Room.findOne\<close> on; \<open>guest_ticket_body\<close> is the body of the
  outer \<^verbatim>\<open>try\<close>. A throw in it is caught by the outer \<^verbatim>\<open>catch\<close>, which
  answers 500. The world is returned as it is at the throw.
\<close>

definition create_all ::
  "env \<Rightarrow> string \<Rightarrow> guest_info \<Rightarrow> room_doc \<Rightarrow> classification \<Rightarrow> world
     \<Rightarrow> ticket list \<times> world" where
  "create_all e rn gi r cls w =
     (case categories cls of
        None \<Rightarrow> ([], w)
      | Some cs \<Rightarrow> (if length cs > 0 then create_loop e rn gi r cls cs ([], w) else ([], w)))"

definition respond_created :: "classification \<Rightarrow> ticket list \<Rightarrow> js_error + response" where
  "respond_created cls created =
     (case categories cls of
        None \<Rightarrow> Inl TypeError
      | Some cs \<Rightarrow> Inr (created_response cls cs created))"

definition lookup_and_create ::
  "env \<Rightarrow> string \<Rightarrow> guest_info \<Rightarrow> classification \<Rightarrow> world \<Rightarrow> (js_error + response) \<times> world" where
  "lookup_and_create e rn gi cls w =
     (let w1 = w\<lparr>room_lookups := room_lookups w + 1\<rparr>
      in (if findOne_rejects e then (Inl MongoError, w1)
          else (case findOne (room_coll w1) rn of
                  None \<Rightarrow> (Inr (plain_response 404 False ''Room not found''), w1)
                | Some r \<Rightarrow>
                    (let acc = create_all e rn gi r cls w1
                     in (respond_created cls (fst acc), snd acc)))))"

definition guest_ticket_body :: "env \<Rightarrow> request \<Rightarrow> world \<Rightarrow> (js_error + response) \<times> world" where
  "guest_ticket_body e req w =
     (if \<not> truthy (req_roomNumber req) \<or> req_guestInfo req = None
           \<or> \<not> truthy (req_initialMessage req)
      then (Inr (plain_response 400 False
                  ''Room number, guest info, and initial message are required''), w)
      else (let rn = the (req_roomNumber req); gi = the (req_guestInfo req);
                msg = the (req_initialMessage req)
            in (case classifyWithExternalAPI (axios_post e) msg (Some rn) of
                  Inl err \<Rightarrow> (Inl err, w)
                | Inr cls \<Rightarrow>
                    (if \<not> should_create_ticket cls
                     then (Inr (greeting_response cls), w)
                     else lookup_and_create e rn gi cls w))))"

definition createGuestTicket :: "env \<Rightarrow> request \<Rightarrow> world \<Rightarrow> response \<times> world" where
  "createGuestTicket e req w =
     (case guest_ticket_body e req w of
        (Inr res, w') \<Rightarrow> (res, w')
      | (Inl err, w') \<Rightarrow>
          (plain_response 500 False ''Failed to create service request'',
           w'\<lparr>error_log := error_log w' @ [''Create guest ticket error:'']\<rparr>))"


text \<open>
  The ways the \<open>n\<close> calls of \<^verbatim>\<open>Ticket.create\<close> from the \<open>k\<close>-th on end, in order.
\<close>

definition fates :: "env \<Rightarrow> nat \<Rightarrow> nat \<Rightarrow> fate list" where
  "fates e k n = map (create_fate e) [k..<k + n]"

definition valid_request :: "request \<Rightarrow> bool" where
  "valid_request req \<longleftrightarrow> truthy (req_roomNumber req) \<and> req_guestInfo req \<noteq> None
     \<and> truthy (req_initialMessage req)"

text \<open>
  The classifier's answer to a request, as \<open>createGuestTicket\<close> obtains it.
\<close>

definition classification_of :: "env \<Rightarrow> request \<Rightarrow> js_error + classification" where
  "classification_of e req =
     classifyWithExternalAPI (axios_post e) (the (req_initialMessage req))
       (Some (the (req_roomNumber req)))"

section \<open>Ticket listing\<close>

text \<open>
  \<^verbatim>\<open>exports.getTickets\<close>. The query has a \<open>status\<close> or \<open>category\<close> entry only
  when the query string gives a truthy value. \<^verbatim>\<open>Ticket.find(query)\<close> keeps the
  documents equal to the query on each entry it has; \<^verbatim>\<open>.sort({ createdAt: -1 })\<close>
  is a stable sort on descending \<open>createdAt\<close> (documents with equal \<open>createdAt\<close>
  stay in collection order). \<open>find_rejects\<close> says whether the query promise rejects.
\<close>

record listing_query =
  q_status :: "string option"
  q_category :: "string option"

definition matches_query :: "listing_query \<Rightarrow> ticket \<Rightarrow> bool" where
  "matches_query q t =
     ((if truthy (q_status q) then status_name (status t) = the (q_status q) else True)
      \<and> (if truthy (q_category q) then category t = Some (the (q_category q)) else True))"

definition find_sorted :: "ticket list \<Rightarrow> listing_query \<Rightarrow> ticket list" where
  "find_sorted coll q = sort_key (\<lambda>t. - createdAt t) (filter (matches_query q) coll)"

definition getTickets :: "bool \<Rightarrow> listing_query \<Rightarrow> world \<Rightarrow> response \<times> world" where
  "getTickets find_rejects q w =
     (if find_rejects
      then (plain_response 500 False ''Failed to get tickets'',
            w\<lparr>error_log := error_log w @ [''Get tickets error:'']\<rparr>)
      else ((plain_response 200 True [])\<lparr>data := Some (Many (find_sorted (ticket_coll w) q))\<rparr>,
            w))"

section \<open>Staff dashboard\<close>

subsection \<open>Grouping related tickets\<close>











text \<open>
  The filter that computes \<^verbatim>\<open>relatedTickets\<close> in the ticket dialog, as a predicate
  on a ticket \<open>t\<close> of the board and the selected ticket.
\<close>

definition related :: "ticket \<Rightarrow> ticket \<Rightarrow> bool" where
  "related selected t =
     (if ticket_id t = ticket_id selected then True
      else if name (guestInfo t) \<noteq> name (guestInfo selected) then False
      else if roomNumber t \<noteq> roomNumber selected then False
      else \<bar>createdAt t - createdAt selected\<bar> \<le> 5 * 60 * 1000)"

subsection \<open>The board state and the pull refresh\<close>

text \<open>
  The component state that \<^verbatim>\<open>fetchData\<close> and \<^verbatim>\<open>getFilteredTickets\<close> read and
  write. \<open>tickets\<close> is the \<^verbatim>\<open>Record\<close> of buckets, keyed by status; \<open>toasts\<close>
  collects the calls of \<^verbatim>\<open>toast.success\<close> for new requests and of
  \<^verbatim>\<open>toast.error\<close>, in order.
\<close>

type_synonym buckets = "status \<rightharpoonup> ticket list"

record dashboard_stats =
  totalRooms :: nat
  raisedTickets :: nat
  inProgressTickets :: nat
  completedTickets :: nat

datatype toast = NewRequest ticket | ErrorToast string

record dashboard =
  tickets :: buckets
  rooms :: "room_doc list"
  stats :: dashboard_stats
  isLoading :: bool
  searchQuery :: string
  filterRoom :: "string option"
  selectedCategories :: "string list"
  toasts :: "toast list"

text \<open>
  The body of an API answer, as far as \<^verbatim>\<open>fetchData\<close> looks at it: the
  \<open>success\<close> flag and \<open>data\<close>, which is \<open>None\<close> unless it is an array. The body
  itself is \<open>None\<close> when the answer has none.
\<close>

record 'a api_body =
  body_success :: bool
  body_data :: "'a list option"

definition bucket :: "buckets \<Rightarrow> status \<Rightarrow> ticket list" where
  "bucket b s = (case b s of None \<Rightarrow> [] | Some ts \<Rightarrow> ts)"

definition new_ticket_toasts :: "buckets \<Rightarrow> ticket list \<Rightarrow> toast list" where
  "new_ticket_toasts b ticketsData =
     (let currentRaisedCount = length (bucket b Raised);
          newRaisedCount = length (filter (\<lambda>t. status t = Raised) ticketsData)
      in if newRaisedCount > currentRaisedCount \<and> currentRaisedCount > 0
         then map NewRequest
                (filter (\<lambda>t. status t = Raised
                          \<and> \<not> list_ex (\<lambda>existing. ticket_id existing = ticket_id t)
                                (bucket b Raised))
                   ticketsData)
         else [])"

definition push_ticket :: "buckets \<Rightarrow> ticket \<Rightarrow> buckets" where
  "push_ticket acc t =
     (let acc1 = (if acc (status t) = None then acc(status t \<mapsto> []) else acc)
      in acc1(status t \<mapsto> the (acc1 (status t)) @ [t]))"

definition groupedTickets :: "ticket list \<Rightarrow> buckets" where
  "groupedTickets ticketsData =
     foldl push_ticket [Raised \<mapsto> [], In_progress \<mapsto> [], Completed \<mapsto> []] ticketsData"

definition data_length :: "'a api_body option \<Rightarrow> nat" where
  "data_length r =
     (case r of None \<Rightarrow> 0
      | Some body \<Rightarrow> (case body_data body of None \<Rightarrow> 0 | Some xs \<Rightarrow> length xs))"

definition usable :: "'a api_body option \<Rightarrow> bool" where
  "usable r = (case r of None \<Rightarrow> False | Some body \<Rightarrow> body_success body \<and> body_data body \<noteq> None)"

text \<open>
  \<^verbatim>\<open>fetchData\<close>: the argument is the outcome of the two \<^verbatim>\<open>apiClient.get\<close> calls
  (a rejection, or both answers), and the state is the one the closure reads.
\<close>

definition fetchData ::
  "js_error + (ticket api_body option \<times> room_doc api_body option) \<Rightarrow> dashboard \<Rightarrow> dashboard" where
  "fetchData outcome d =
     (case outcome of
        Inl err \<Rightarrow> d\<lparr>toasts := toasts d @ [ErrorToast ''Failed to load dashboard data''],
                      isLoading := False\<rparr>
      | Inr answers \<Rightarrow>
          (let ticketsResponse = fst answers; roomsResponse = snd answers;
               d1 = (if usable ticketsResponse
                     then (let ticketsData = the (body_data (the ticketsResponse));
                               grouped = groupedTickets ticketsData
                           in d\<lparr>toasts := toasts d @ new_ticket_toasts (tickets d) ticketsData,
                                tickets := grouped,
                                stats := \<lparr> totalRooms = data_length roomsResponse,
                                           raisedTickets = length (bucket grouped Raised),
                                           inProgressTickets = length (bucket grouped In_progress),
                                           completedTickets = length (bucket grouped Completed) \<rparr>\<rparr>)
                     else d);
               d2 = (if usable roomsResponse
                     then d1\<lparr>rooms := the (body_data (the roomsResponse))\<rparr>
                     else d1)
           in d2\<lparr>isLoading := False\<rparr>))"

text \<open>A pull whose ticket answer is usable and carries \<open>ticketsData\<close>.\<close>

definition pull :: "ticket list \<Rightarrow> room_doc api_body option \<Rightarrow> dashboard \<Rightarrow> dashboard" where
  "pull ticketsData roomsResponse d =
     fetchData (Inr (Some \<lparr> body_success = True, body_data = Some ticketsData \<rparr>, roomsResponse)) d"

subsection \<open>The board columns\<close>

text \<open>
  \<^verbatim>\<open>getFilteredTickets(status)\<close>. The regular expression
  \<^verbatim>\<open>/^(hi|hello|hey|...)\s*[!.]?$/i\<close> is \<open>greeting_regex\<close>: one of the words, then
  white space, then at most one of \<open>!\<close> and \<open>.\<close>, then the end of the text, letters
  compared without case. \<^verbatim>\<open>includes\<close> is \<open>sublist\<close>.
\<close>

definition lower_char :: "char \<Rightarrow> char" where
  "lower_char c = (let n = (of_char c :: nat)
     in if 65 \<le> n \<and> n \<le> 90 then char_of (n + 32) else c)"

definition toLowerCase :: "string \<Rightarrow> string" where
  "toLowerCase s = map lower_char s"

definition is_space :: "char \<Rightarrow> bool" where
  "is_space c = ((of_char c :: nat) \<in> {9, 10, 11, 12, 13, 32})"

definition trim :: "string \<Rightarrow> string" where
  "trim s = rev (dropWhile is_space (rev (dropWhile is_space s)))"

definition greeting_words :: "string list" where
  "greeting_words = [''hi'', ''hello'', ''hey'', ''good morning'', ''good afternoon'',
     ''good evening'', ''greetings'', ''how are you'', ''nice to meet you'']"

definition greeting_tail :: "string \<Rightarrow> bool" where
  "greeting_tail r = (let r1 = dropWhile is_space r in r1 = [] \<or> r1 = ''!'' \<or> r1 = ''.'')"

definition greeting_regex :: "string \<Rightarrow> bool" where
  "greeting_regex s =
     (let s1 = toLowerCase s
      in list_ex (\<lambda>w. prefix w s1 \<and> greeting_tail (drop (length w) s1)) greeting_words)"

definition firstMessage :: "ticket \<Rightarrow> string" where
  "firstMessage t = (case messages t of [] \<Rightarrow> [] | m # ms \<Rightarrow> toLowerCase (content m))"

definition isGreeting_ticket :: "ticket \<Rightarrow> bool" where
  "isGreeting_ticket t = greeting_regex (trim (firstMessage t))"

definition getTicketCategory :: "ticket \<Rightarrow> string" where
  "getTicketCategory t = or_else (category t) ''reception''"

definition search_hit :: "string \<Rightarrow> ticket \<Rightarrow> bool" where
  "search_hit q t =
     (sublist (toLowerCase q) (toLowerCase (name (guestInfo t)))
      \<or> sublist q (roomNumber t)
      \<or> sublist (toLowerCase q)
           (toLowerCase (case messages t of [] \<Rightarrow> [] | m # ms \<Rightarrow> content m)))"

definition getFilteredTickets :: "dashboard \<Rightarrow> status \<Rightarrow> ticket list" where
  "getFilteredTickets d s =
     (let filtered = bucket (tickets d) s;
          filtered = filter (\<lambda>t. \<not> isGreeting_ticket t) filtered;
          filtered = (if searchQuery d \<noteq> [] then filter (search_hit (searchQuery d)) filtered
                      else filtered);
          filtered = (if truthy (filterRoom d)
                      then filter (\<lambda>t. roomNumber t = the (filterRoom d)) filtered
                      else filtered)
      in filter (\<lambda>t. getTicketCategory t \<in> set (selectedCategories d)) filtered)"

text \<open>
  Concrete inputs for the examples below: the request of the repository's
  classification test script (room 101, guest "Test Guest"), a store with that room,
  and an environment given by the classifier's answer and the fates of the
  \<^verbatim>\<open>Ticket.create\<close> calls.
\<close>

definition demo_room :: room_doc where
  "demo_room = \<lparr> room_id = ''r101'', number = ''101'', room_manager = Some ''m1'' \<rparr>"

definition demo_guest :: guest_info where
  "demo_guest = \<lparr> name = ''Test Guest'', email = Some ''test@test.com'', phone = Some ''N/A'' \<rparr>"

definition demo_request :: "string \<Rightarrow> string \<Rightarrow> request" where
  "demo_request rn msg = \<lparr> req_roomNumber = Some rn, req_guestInfo = Some demo_guest,
     req_initialMessage = Some msg \<rparr>"

definition demo_world :: world where
  "demo_world = \<lparr> room_coll = [demo_room], ticket_coll = [], emitted = [], error_log = [],
     create_calls = 0, room_lookups = 0 \<rparr>"

definition demo_env :: "(js_error + classification) \<Rightarrow> (nat \<Rightarrow> fate) \<Rightarrow> env" where
  "demo_env answer f = \<lparr> axios_post = (\<lambda>msg rn. answer), findOne_rejects = False,
     create_fate = f, new_id = (\<lambda>k. if k = 0 then ''t0'' else ''t1''),
     now_iso = (\<lambda>k. ''2024-01-01T00:00:00.000Z''), now_ms = (\<lambda>k. 1704067200000),
     io_present = True \<rparr>"

definition coffee_and_towels :: classification where
  "coffee_and_towels = \<lparr> should_create_ticket = True,
     categories = Some [\<lparr> ci_category = ''service_fb'', ci_message = ''coffee'',
                           urgency = Some ''medium'' \<rparr>,
                        \<lparr> ci_category = ''housekeeping'', ci_message = ''clean towels'',
                           urgency = None \<rparr>],
     confidence = 9 / 10, reasoning = ''two requests'', suggested_priority = ''medium'',
     estimated_completion_time = None \<rparr>"

definition good_morning :: classification where
  "good_morning = \<lparr> should_create_ticket = False, categories = Some [],
     confidence = 9 / 10, reasoning = ''greeting'', suggested_priority = ''low'',
     estimated_completion_time = None \<rparr>"

text \<open>
  A ticket of the demo guest in room 101, given its id, status, category, creation
  time and first message; and a board whose \<open>raised\<close> bucket is given, with no
  search text, no room filter and all six categories selected.
\<close>

definition demo_ticket :: "string \<Rightarrow> status \<Rightarrow> string \<Rightarrow> int \<Rightarrow> string \<Rightarrow> ticket" where
  "demo_ticket i s c ms msg =
     \<lparr> ticket_id = i, room = ''r101'', roomNumber = ''101'', category = Some c,
       guestInfo = demo_guest, status = s, manager = Some ''m1'', subject = None,
       messages = [\<lparr> content = msg, sender = ''system'', senderName = ''System'',
                      timestamp = [] \<rparr>],
       priority = ''medium'', estimatedCompletion = None, ticket_confidence = 1,
       createdAt = ms \<rparr>"

definition demo_board :: "ticket list \<Rightarrow> dashboard" where
  "demo_board raised =
     \<lparr> tickets = [Raised \<mapsto> raised, In_progress \<mapsto> [], Completed \<mapsto> []],
       rooms = [],
       stats = \<lparr> totalRooms = 0, raisedTickets = 0, inProgressTickets = 0,
                 completedTickets = 0 \<rparr>,
       isLoading = False, searchQuery = [], filterRoom = None,
       selectedCategories = [''reception'', ''housekeeping'', ''porter'', ''concierge'',
                             ''service_fb'', ''maintenance''],
       toasts = [] \<rparr>"

section \<open>Theorems\<close>

lemmas demo_defs = demo_room_def demo_guest_def demo_request_def demo_world_def demo_env_def
  coffee_and_towels_def good_morning_def

lemmas handler_defs = createGuestTicket_def guest_ticket_body_def lookup_and_create_def
  create_all_def respond_created_def created_response_def greeting_response_def
  plain_response_def classifyWithExternalAPI_def try_catch_def truthy_def findOne_def
  attempt_def new_ticket_def new_event_def or_else_def valid_request_def classification_of_def

subsection \<open>The classification gateway\<close>

lemma classify_total:
  "\<exists>c. classifyWithExternalAPI post msg rn = Inr c"
  by (auto simp: classifyWithExternalAPI_def try_catch_def split: option.splits sum.splits)

text \<open>
  C2. When the call of the external classifier throws, \<open>classifyWithExternalAPI\<close>
  returns the fixed fallback: \<open>should_create_ticket\<close> false, no categories,
  confidence 0.0 and the reasoning "Classification service unavailable". The same holds
  when \<^verbatim>\<open>roomNumber.toString()\<close> throws. For every input the function returns a
  classification: it never raises.
\<close>

theorem classify_fallback:
  "(post msg rn = Inl err \<longrightarrow> classifyWithExternalAPI post msg (Some rn) = Inr fallback)
   \<and> classifyWithExternalAPI post msg None = Inr fallback
   \<and> (\<exists>c. classifyWithExternalAPI post msg roomNo = Inr c)
   \<and> should_create_ticket fallback = False
   \<and> categories fallback = Some []
   \<and> confidence fallback = 0
   \<and> reasoning fallback = ''Classification service unavailable''"
  by (auto simp: classifyWithExternalAPI_def try_catch_def fallback_def
      split: option.splits sum.splits)

theorem classify_fallback_witness:
  "(\<lambda>m r. Inl AxiosError :: js_error + classification) ''Hello'' ''101'' = Inl AxiosError
   \<and> classifyWithExternalAPI (\<lambda>m r. Inl AxiosError) ''Hello'' (Some ''101'') = Inr fallback
   \<and> should_create_ticket fallback = False"
  using classify_fallback [of "\<lambda>m r. Inl AxiosError" "''Hello''" "''101''" AxiosError]
  by simp

subsection \<open>The loop over the categories\<close>

lemma fates_Suc: "fates e k (Suc n) = create_fate e k # fates e (Suc k) n"
  by (simp add: fates_def upt_rec)

lemma fates_0: "fates e k 0 = []"
  by (simp add: fates_def)


lemma attempt_calls:
  "create_calls (snd (attempt e rn gi r cls ci acc)) = Suc (create_calls (snd acc))"
  by (simp add: attempt_def Let_def split: fate.splits)



lemma attempt_emitted:
  "length (emitted (snd (attempt e rn gi r cls ci acc))) =
     length (emitted (snd acc)) + (if create_fate e (create_calls (snd acc)) = Completes \<and> io_present e
                then 1 else 0)"
  by (simp add: attempt_def Let_def split: fate.splits)

lemma attempt_logged:
  "length (error_log (snd (attempt e rn gi r cls ci acc))) =
     length (error_log (snd acc))
       + (if create_fate e (create_calls (snd acc)) \<noteq> Completes then 1 else 0)"
  by (simp add: attempt_def Let_def split: fate.splits)


lemma create_loop_emitted:
  "length (emitted (snd (create_loop e rn gi r cls cs acc))) =
     length (emitted (snd acc))
       + (if io_present e
          then length (filter (\<lambda>f. f = Completes) (fates e (create_calls (snd acc)) (length cs)))
          else 0)"
  by (induction cs arbitrary: acc) (simp_all add: fates_0 fates_Suc attempt_calls attempt_emitted)

lemma create_loop_logged:
  "length (error_log (snd (create_loop e rn gi r cls cs acc))) =
     length (error_log (snd acc))
       + length (filter (\<lambda>f. f \<noteq> Completes) (fates e (create_calls (snd acc)) (length cs)))"
  by (induction cs arbitrary: acc) (simp_all add: fates_0 fates_Suc attempt_calls attempt_logged)






lemma create_all_loop:
  "categories cls = Some cs \<Longrightarrow> create_all e rn gi r cls w = create_loop e rn gi r cls cs ([], w)"
  by (cases cs) (simp_all add: create_all_def)

lemma createGuestTicket_created:
  assumes "valid_request req" and "classification_of e req = Inr cls"
    and "should_create_ticket cls" and "categories cls = Some cs"
    and "findOne (room_coll w) (the (req_roomNumber req)) = Some r"
    and "\<not> findOne_rejects e"
  shows "createGuestTicket e req w =
    (created_response cls cs
       (fst (create_loop e (the (req_roomNumber req)) (the (req_guestInfo req)) r cls cs
               ([], w\<lparr>room_lookups := room_lookups w + 1\<rparr>))),
     snd (create_loop e (the (req_roomNumber req)) (the (req_guestInfo req)) r cls cs
               ([], w\<lparr>room_lookups := room_lookups w + 1\<rparr>)))"
  using assms
  by (auto simp: createGuestTicket_def guest_ticket_body_def lookup_and_create_def
      valid_request_def classification_of_def Let_def create_all_loop respond_created_def)

lemma createGuestTicket_greeting:
  assumes "valid_request req" and "classification_of e req = Inr cls"
    and "\<not> should_create_ticket cls"
  shows "createGuestTicket e req w = (greeting_response cls, w)"
  using assms
  by (auto simp: createGuestTicket_def guest_ticket_body_def
      valid_request_def classification_of_def Let_def)


subsection \<open>Guest ticket creation\<close>





text \<open>
  On the same runs, every pass that ran to its end sent one \<open>newTicket\<close> event (when
  the socket server is there), and every other pass wrote one line to the error log.
\<close>

lemma guest_ticket_events_and_log:
  assumes "valid_request req" and "classification_of e req = Inr cls"
    and "should_create_ticket cls" and "categories cls = Some cs"
    and "findOne (room_coll w) (the (req_roomNumber req)) = Some r"
    and "\<not> findOne_rejects e"
  shows "length (emitted (snd (createGuestTicket e req w))) =
      length (emitted w)
        + (if io_present e
           then length (filter (\<lambda>f. f = Completes) (fates e (create_calls w) (length cs)))
           else 0)"
    and "length (error_log (snd (createGuestTicket e req w))) =
      length (error_log w)
        + length (filter (\<lambda>f. f \<noteq> Completes) (fates e (create_calls w) (length cs)))"
  by (simp_all add: createGuestTicket_created [OF assms] create_loop_emitted create_loop_logged)

text \<open>
  C3. When the classification says that no ticket is needed, the handler stores no
  ticket, calls \<^verbatim>\<open>Ticket.create\<close> not once, emits no event, and answers 200 with
  \<open>success\<close> true, \<open>shouldCreateTicket\<close> false and \<open>isGreeting\<close> true.
\<close>

theorem greeting_creates_nothing:
  assumes "valid_request req" and "classification_of e req = Inr cls"
    and "\<not> should_create_ticket cls"
  shows "ticket_coll (snd (createGuestTicket e req w)) = ticket_coll w
    \<and> create_calls (snd (createGuestTicket e req w)) = create_calls w
    \<and> emitted (snd (createGuestTicket e req w)) = emitted w
    \<and> http_status (fst (createGuestTicket e req w)) = 200
    \<and> success (fst (createGuestTicket e req w)) = True
    \<and> shouldCreateTicket (fst (createGuestTicket e req w)) = Some False
    \<and> isGreeting (fst (createGuestTicket e req w)) = Some True"
  by (simp add: createGuestTicket_greeting [OF assms] greeting_response_def plain_response_def)

theorem greeting_creates_nothing_witness:
  "valid_request (demo_request ''101'' ''Good morning'')
   \<and> classification_of (demo_env (Inr good_morning) (\<lambda>k. Completes))
        (demo_request ''101'' ''Good morning'') = Inr good_morning
   \<and> \<not> should_create_ticket good_morning
   \<and> ticket_coll (snd (createGuestTicket (demo_env (Inr good_morning) (\<lambda>k. Completes))
        (demo_request ''101'' ''Good morning'') demo_world)) = []
   \<and> emitted (snd (createGuestTicket (demo_env (Inr good_morning) (\<lambda>k. Completes))
        (demo_request ''101'' ''Good morning'') demo_world)) = []
   \<and> http_status (fst (createGuestTicket (demo_env (Inr good_morning) (\<lambda>k. Completes))
        (demo_request ''101'' ''Good morning'') demo_world)) = 200
   \<and> isGreeting (fst (createGuestTicket (demo_env (Inr good_morning) (\<lambda>k. Completes))
        (demo_request ''101'' ''Good morning'') demo_world)) = Some True"
proof -
  let ?e = "demo_env (Inr good_morning) (\<lambda>k. Completes)"
  let ?req = "demo_request ''101'' ''Good morning''"
  have h1: "valid_request ?req"
    by (simp add: valid_request_def demo_request_def truthy_def)
  have h2: "classification_of ?e ?req = Inr good_morning"
    by (simp add: classification_of_def demo_env_def demo_request_def
        classifyWithExternalAPI_def try_catch_def)
  have h3: "\<not> should_create_ticket good_morning"
    by (simp add: good_morning_def)
  show ?thesis
    using greeting_creates_nothing [OF h1 h2 h3, of demo_world] h1 h2 h3
    by (simp add: demo_world_def)
qed

text \<open>
  C9. The greeting check comes before the room check. When the classification says
  that no ticket is needed, the answer is 200 with \<open>isGreeting\<close> true and
  \<^verbatim>\<open>Room.findOne\<close> is not called, whatever rooms exist. An answer 404 is given only
  when the classification asked for a ticket; then the room was looked up once and not
  found.
\<close>

theorem greeting_before_room_check:
  "(valid_request req \<and> classification_of e req = Inr cls \<and> \<not> should_create_ticket cls
      \<longrightarrow> http_status (fst (createGuestTicket e req w)) = 200
        \<and> isGreeting (fst (createGuestTicket e req w)) = Some True
        \<and> room_lookups (snd (createGuestTicket e req w)) = room_lookups w)
   \<and> (http_status (fst (createGuestTicket e req w)) = 404
      \<longrightarrow> valid_request req
        \<and> (\<exists>c. classification_of e req = Inr c \<and> should_create_ticket c)
        \<and> findOne (room_coll w) (the (req_roomNumber req)) = None
        \<and> room_lookups (snd (createGuestTicket e req w)) = room_lookups w + 1)"
proof (intro conjI impI)
  assume a: "valid_request req \<and> classification_of e req = Inr cls \<and> \<not> should_create_ticket cls"
  then have run: "createGuestTicket e req w = (greeting_response cls, w)"
    by (simp add: createGuestTicket_greeting)
  show "http_status (fst (createGuestTicket e req w)) = 200"
    by (simp add: run greeting_response_def plain_response_def)
  show "isGreeting (fst (createGuestTicket e req w)) = Some True"
    by (simp add: run greeting_response_def plain_response_def)
  show "room_lookups (snd (createGuestTicket e req w)) = room_lookups w"
    by (simp add: run)
next
  assume nf: "http_status (fst (createGuestTicket e req w)) = 404"
  obtain c where c: "classification_of e req = Inr c"
    unfolding classification_of_def using classify_total by blast
  show v: "valid_request req"
    using nf
    by (auto simp: createGuestTicket_def guest_ticket_body_def valid_request_def
        plain_response_def split: if_splits)
  have s: "should_create_ticket c"
  proof (rule ccontr)
    assume "\<not> should_create_ticket c"
    then have "createGuestTicket e req w = (greeting_response c, w)"
      using v c by (simp add: createGuestTicket_greeting)
    then show False
      using nf by (simp add: greeting_response_def plain_response_def)
  qed
  show "\<exists>c. classification_of e req = Inr c \<and> should_create_ticket c"
    using c s by blast
  have run: "createGuestTicket e req w =
    (case lookup_and_create e (the (req_roomNumber req)) (the (req_guestInfo req)) c w of
       (Inr res, w') \<Rightarrow> (res, w')
     | (Inl err, w') \<Rightarrow>
         (plain_response 500 False ''Failed to create service request'',
          w'\<lparr>error_log := error_log w' @ [''Create guest ticket error:'']\<rparr>))"
    using v c s
    by (auto simp: createGuestTicket_def guest_ticket_body_def valid_request_def
        classification_of_def Let_def)
  show "findOne (room_coll w) (the (req_roomNumber req)) = None"
    using nf
    by (auto simp: run lookup_and_create_def Let_def respond_created_def created_response_def
        plain_response_def split: if_splits option.splits)
  show "room_lookups (snd (createGuestTicket e req w)) = room_lookups w + 1"
    using nf
    by (auto simp: run lookup_and_create_def Let_def respond_created_def created_response_def
        plain_response_def split: if_splits option.splits)
qed

theorem greeting_before_room_check_witness:
  "valid_request (demo_request ''999'' ''Good morning'')
   \<and> classification_of (demo_env (Inr good_morning) (\<lambda>k. Completes))
        (demo_request ''999'' ''Good morning'') = Inr good_morning
   \<and> \<not> should_create_ticket good_morning
   \<and> findOne (room_coll demo_world) ''999'' = None
   \<and> http_status (fst (createGuestTicket (demo_env (Inr good_morning) (\<lambda>k. Completes))
        (demo_request ''999'' ''Good morning'') demo_world)) = 200
   \<and> room_lookups (snd (createGuestTicket (demo_env (Inr good_morning) (\<lambda>k. Completes))
        (demo_request ''999'' ''Good morning'') demo_world)) = 0
   \<and> http_status (fst (createGuestTicket (demo_env (Inr coffee_and_towels) (\<lambda>k. Completes))
        (demo_request ''999'' ''I need coffee and clean towels'') demo_world)) = 404
   \<and> (\<exists>c. classification_of (demo_env (Inr coffee_and_towels) (\<lambda>k. Completes))
        (demo_request ''999'' ''I need coffee and clean towels'') = Inr c
        \<and> should_create_ticket c)"
proof -
  let ?e = "demo_env (Inr good_morning) (\<lambda>k. Completes)"
  let ?req = "demo_request ''999'' ''Good morning''"
  let ?e2 = "demo_env (Inr coffee_and_towels) (\<lambda>k. Completes)"
  let ?req2 = "demo_request ''999'' ''I need coffee and clean towels''"
  have h1: "valid_request ?req"
    by (simp add: valid_request_def demo_request_def truthy_def)
  have h2: "classification_of ?e ?req = Inr good_morning"
    by (simp add: classification_of_def demo_env_def demo_request_def
        classifyWithExternalAPI_def try_catch_def)
  have h3: "\<not> should_create_ticket good_morning"
    by (simp add: good_morning_def)
  have h4: "findOne (room_coll demo_world) ''999'' = None"
    by (simp add: findOne_def demo_world_def demo_room_def)
  have h5: "http_status (fst (createGuestTicket ?e2 ?req2 demo_world)) = 404"
    by (simp add: demo_defs handler_defs Let_def)
  have lk: "room_lookups demo_world = 0"
    by (simp add: demo_world_def)
  show ?thesis
    using greeting_before_room_check [of ?req ?e good_morning demo_world]
      greeting_before_room_check [of ?req2 ?e2 good_morning demo_world]
      h1 h2 h3 h4 h5 lk
    by simp
qed






subsection \<open>Ticket listing\<close>

text \<open>
  C8. When the query does not reject, \<open>getTickets\<close> answers 200 with exactly the
  tickets of the collection that match the status and category filters given (each as
  often as it is stored), most recently created first. It does not change the store,
  so a second call with no write in between gives the identical answer.
\<close>

theorem getTickets_newest_first:
  "(\<exists>ts. data (fst (getTickets False q w)) = Some (Many ts)
        \<and> set ts = {t \<in> set (ticket_coll w). matches_query q t}
        \<and> mset ts = mset (filter (matches_query q) (ticket_coll w))
        \<and> sorted_wrt (\<lambda>a b. createdAt b \<le> createdAt a) ts)
   \<and> http_status (fst (getTickets False q w)) = 200
   \<and> snd (getTickets False q w) = w
   \<and> getTickets False q (snd (getTickets False q w)) = getTickets False q w"
proof -
  have s: "sorted_wrt (\<lambda>a b. createdAt b \<le> createdAt a) (find_sorted (ticket_coll w) q)"
    using sorted_sort_key [of "\<lambda>t. - createdAt t" "filter (matches_query q) (ticket_coll w)"]
    by (simp add: find_sorted_def sorted_map)
  show ?thesis
    using s by (auto simp: getTickets_def plain_response_def find_sorted_def)
qed

theorem getTickets_newest_first_witness:
  "data (fst (getTickets False \<lparr> q_status = Some ''raised'', q_category = None \<rparr>
      (demo_world\<lparr>ticket_coll := [demo_ticket ''t1'' Raised ''porter'' 0 ''bags'',
                                  demo_ticket ''t2'' Completed ''porter'' 5 ''taxi'',
                                  demo_ticket ''t3'' Raised ''porter'' 9 ''key'']\<rparr>)))
   = Some (Many [demo_ticket ''t3'' Raised ''porter'' 9 ''key'',
                 demo_ticket ''t1'' Raised ''porter'' 0 ''bags''])"
  using getTickets_newest_first [of "\<lparr> q_status = Some ''raised'', q_category = None \<rparr>"
      "demo_world\<lparr>ticket_coll := [demo_ticket ''t1'' Raised ''porter'' 0 ''bags'',
                                  demo_ticket ''t2'' Completed ''porter'' 5 ''taxi'',
                                  demo_ticket ''t3'' Raised ''porter'' 9 ''key'']\<rparr>"]
  by (simp add: getTickets_def find_sorted_def matches_query_def truthy_def plain_response_def
      demo_ticket_def demo_world_def)

subsection \<open>Grouping related tickets\<close>


















lemma related_three_and_six_minutes:
  assumes "ticket_id t \<noteq> ticket_id selected"
    and "name (guestInfo t) = name (guestInfo selected)"
    and "roomNumber t = roomNumber selected"
  shows "\<bar>createdAt t - createdAt selected\<bar> = 3 * 60 * 1000 \<Longrightarrow> related selected t"
    and "\<bar>createdAt t - createdAt selected\<bar> = 6 * 60 * 1000 \<Longrightarrow> \<not> related selected t"
  using assms by (simp_all add: related_def)






subsection \<open>The pull refresh\<close>

lemma push_ticket_Some:
  "acc s = Some xs \<Longrightarrow>
     push_ticket acc t s = Some (xs @ (if status t = s then [t] else []))"
  by (auto simp: push_ticket_def Let_def)

lemma foldl_push_Some:
  "acc s = Some xs \<Longrightarrow>
     foldl push_ticket acc ts s = Some (xs @ filter (\<lambda>t. status t = s) ts)"
proof (induction ts arbitrary: acc xs)
  case Nil
  then show ?case by simp
next
  case (Cons t ts)
  have "push_ticket acc t s = Some (xs @ (if status t = s then [t] else []))"
    using Cons.prems by (rule push_ticket_Some [of acc s xs t])
  then have "foldl push_ticket (push_ticket acc t) ts s
      = Some ((xs @ (if status t = s then [t] else [])) @ filter (\<lambda>t. status t = s) ts)"
    by (rule Cons.IH [of "push_ticket acc t" "xs @ (if status t = s then [t] else [])"])
  then show ?case by simp
qed

lemma groupedTickets_bucket:
  "groupedTickets ts s = Some (filter (\<lambda>t. status t = s) ts)"
proof -
  have "[Raised \<mapsto> [], In_progress \<mapsto> [], Completed \<mapsto> []] s = Some ([] :: ticket list)"
    by (cases s) simp_all
  then have "foldl push_ticket [Raised \<mapsto> [], In_progress \<mapsto> [], Completed \<mapsto> []] ts s
      = Some ([] @ filter (\<lambda>t. status t = s) ts)"
    by (rule foldl_push_Some [of _ s "[]" ts])
  then show ?thesis
    by (simp add: groupedTickets_def)
qed

lemma pull_tickets: "tickets (pull ts rr d) = groupedTickets ts"
  by (simp add: pull_def fetchData_def usable_def Let_def)

lemma pull_stats:
  "stats (pull ts rr d) = \<lparr> totalRooms = data_length rr,
      raisedTickets = length (bucket (groupedTickets ts) Raised),
      inProgressTickets = length (bucket (groupedTickets ts) In_progress),
      completedTickets = length (bucket (groupedTickets ts) Completed) \<rparr>"
  by (simp add: pull_def fetchData_def usable_def Let_def)


text \<open>
  C7. After a pull with a usable ticket answer, each of the three buckets holds exactly
  the fetched tickets of its status, in fetched order. So a fetched ticket is in the
  bucket of its status and in no other, the buckets hold only fetched tickets, and,
  ticket ids being unique in the fetched list, no id is in two buckets. The three
  status counts of \<open>stats\<close> are the lengths of the buckets.
\<close>

theorem pull_partitions_by_status:
  "(\<forall>s. tickets (pull ts rr d) s = Some (filter (\<lambda>t. status t = s) ts))
   \<and> (\<forall>t \<in> set ts. \<forall>s. t \<in> set (bucket (tickets (pull ts rr d)) s) \<longleftrightarrow> s = status t)
   \<and> (\<forall>s. set (bucket (tickets (pull ts rr d)) s) \<subseteq> set ts)
   \<and> (distinct (map ticket_id ts) \<longrightarrow>
        (\<forall>s s'. s \<noteq> s' \<longrightarrow>
           ticket_id ` set (bucket (tickets (pull ts rr d)) s)
             \<inter> ticket_id ` set (bucket (tickets (pull ts rr d)) s') = {}))
   \<and> raisedTickets (stats (pull ts rr d)) = length (bucket (tickets (pull ts rr d)) Raised)
   \<and> inProgressTickets (stats (pull ts rr d)) = length (bucket (tickets (pull ts rr d)) In_progress)
   \<and> completedTickets (stats (pull ts rr d)) = length (bucket (tickets (pull ts rr d)) Completed)"
proof -
  have b: "\<And>s. bucket (tickets (pull ts rr d)) s = filter (\<lambda>t. status t = s) ts"
    by (simp add: pull_tickets bucket_def groupedTickets_bucket)
  have disj: "ticket_id ` set (filter (\<lambda>t. status t = s) ts)
             \<inter> ticket_id ` set (filter (\<lambda>t. status t = s') ts) = {}"
    if "distinct (map ticket_id ts)" "s \<noteq> s'" for s s'
  proof -
    have "inj_on ticket_id (set ts)" using that(1) by (simp add: distinct_map)
    then show ?thesis using that(2) by (auto dest: inj_onD)
  qed
  have t: "\<And>s. tickets (pull ts rr d) s = Some (filter (\<lambda>t. status t = s) ts)"
    by (simp add: pull_tickets groupedTickets_bucket)
  have c2: "\<forall>t \<in> set ts. \<forall>s. t \<in> set (bucket (tickets (pull ts rr d)) s) \<longleftrightarrow> s = status t"
    by (auto simp: b)
  have c3: "\<forall>s. set (bucket (tickets (pull ts rr d)) s) \<subseteq> set ts"
    by (auto simp: b)
  have c4: "distinct (map ticket_id ts) \<longrightarrow>
        (\<forall>s s'. s \<noteq> s' \<longrightarrow>
           ticket_id ` set (bucket (tickets (pull ts rr d)) s)
             \<inter> ticket_id ` set (bucket (tickets (pull ts rr d)) s') = {})"
    using disj unfolding b by blast
  have c5: "raisedTickets (stats (pull ts rr d)) = length (bucket (tickets (pull ts rr d)) Raised)"
    "inProgressTickets (stats (pull ts rr d)) = length (bucket (tickets (pull ts rr d)) In_progress)"
    "completedTickets (stats (pull ts rr d)) = length (bucket (tickets (pull ts rr d)) Completed)"
    by (simp_all add: pull_stats pull_tickets)
  show ?thesis
    using t c2 c3 c4 c5 by blast
qed

theorem pull_partitions_by_status_witness:
  "distinct (map ticket_id [demo_ticket ''t1'' Raised ''porter'' 0 ''bags'',
                            demo_ticket ''t2'' Completed ''porter'' 5 ''taxi''])
   \<and> demo_ticket ''t2'' Completed ''porter'' 5 ''taxi''
       \<in> set [demo_ticket ''t1'' Raised ''porter'' 0 ''bags'',
              demo_ticket ''t2'' Completed ''porter'' 5 ''taxi'']
   \<and> bucket (tickets (pull [demo_ticket ''t1'' Raised ''porter'' 0 ''bags'',
                             demo_ticket ''t2'' Completed ''porter'' 5 ''taxi'']
                         None (demo_board []))) Completed
       = [demo_ticket ''t2'' Completed ''porter'' 5 ''taxi'']
   \<and> completedTickets (stats (pull [demo_ticket ''t1'' Raised ''porter'' 0 ''bags'',
                             demo_ticket ''t2'' Completed ''porter'' 5 ''taxi'']
                         None (demo_board []))) = 1"
  using pull_partitions_by_status [of "[demo_ticket ''t1'' Raised ''porter'' 0 ''bags'',
          demo_ticket ''t2'' Completed ''porter'' 5 ''taxi'']" None "demo_board []"]
  by (simp add: demo_ticket_def bucket_def)




subsection \<open>The board columns\<close>

lemma greeting_examples:
  "greeting_regex ''hi'' \<and> greeting_regex ''hello'' \<and> greeting_regex ''good morning''
   \<and> \<not> greeting_regex ''hi there''"
  by code_simp

text \<open>
  C10. For every bucket and every setting of search text, room filter and selected
  categories, \<open>getFilteredTickets\<close> returns no ticket whose first message, lowercased
  and trimmed, matches the greeting pattern; what it returns are tickets of the
  bucket. The board columns render \<open>getFilteredTickets\<close> of the three statuses.
\<close>

theorem greetings_never_rendered:
  "(isGreeting_ticket t \<longrightarrow> t \<notin> set (getFilteredTickets d s))
   \<and> set (getFilteredTickets d s) \<subseteq> set (bucket (tickets d) s)"
  by (auto simp: getFilteredTickets_def Let_def)

theorem greetings_never_rendered_witness:
  "isGreeting_ticket (demo_ticket ''t1'' Raised ''reception'' 0 ''Good Morning!'')
   \<and> demo_ticket ''t1'' Raised ''reception'' 0 ''Good Morning!''
       \<in> set (bucket (tickets (demo_board [demo_ticket ''t1'' Raised ''reception'' 0 ''Good Morning!'',
                                    demo_ticket ''t2'' Raised ''porter'' 5 ''Book me a taxi''])) Raised)
   \<and> getFilteredTickets (demo_board [demo_ticket ''t1'' Raised ''reception'' 0 ''Good Morning!'',
                                    demo_ticket ''t2'' Raised ''porter'' 5 ''Book me a taxi'']) Raised
       = [demo_ticket ''t2'' Raised ''porter'' 5 ''Book me a taxi'']"
proof -
  have g: "isGreeting_ticket (demo_ticket ''t1'' Raised ''reception'' 0 ''Good Morning!'')"
    by code_simp
  have n: "\<not> isGreeting_ticket (demo_ticket ''t2'' Raised ''porter'' 5 ''Book me a taxi'')"
    by (simp add: isGreeting_ticket_def firstMessage_def demo_ticket_def trim_def
      greeting_regex_def greeting_words_def greeting_tail_def toLowerCase_def lower_char_def
      is_space_def Let_def)
  have f: "getFilteredTickets (demo_board [demo_ticket ''t1'' Raised ''reception'' 0 ''Good Morning!'',
                                    demo_ticket ''t2'' Raised ''porter'' 5 ''Book me a taxi'']) Raised
       = [demo_ticket ''t2'' Raised ''porter'' 5 ''Book me a taxi'']"
    using g n
    by (simp add: getFilteredTickets_def Let_def demo_board_def bucket_def truthy_def
        getTicketCategory_def or_else_def)
       (simp add: demo_ticket_def)
  show ?thesis
    using greetings_never_rendered [of "demo_ticket ''t1'' Raised ''reception'' 0 ''Good Morning!''"
        "demo_board [demo_ticket ''t1'' Raised ''reception'' 0 ''Good Morning!'',
                     demo_ticket ''t2'' Raised ''porter'' 5 ''Book me a taxi'']" Raised] g f
    by (simp add: demo_board_def bucket_def)
qed

end
